theory Spec2Isabelle
  imports Complex_Main "HOL-Library.Sublist" "HOL-Library.AList"
begin

section \<open>JavaScript values used by the weather server\<close>

text \<open>
  Parsed JSON as \<open>response.json()\<close> yields it. A JavaScript value that may be
  \<open>undefined\<close> is a \<open>json option\<close>, with \<open>None\<close> for \<open>undefined\<close>. Numbers
  are idealised as reals.
\<close>

datatype json =
    JNull
  | JBool bool
  | JNum real
  | JStr string
  | JArr "json list"
  | JObj "(string \<times> json) list"

text \<open>An \<open>Error\<close> object: its \<open>name\<close> and its \<open>message\<close>.\<close>

datatype js_error = JsError (ename: string) (message: string)

text \<open>
  What a \<open>catch\<close> clause can receive: an \<open>Error\<close> instance, or any other value,
  of which only \<open>String(value)\<close> is ever used.
\<close>

datatype thrown = Err js_error | NonErr string

definition new_Error :: "string \<Rightarrow> thrown" where
  "new_Error msg = Err (JsError ''Error'' msg)"

definition type_error :: "string \<Rightarrow> string \<Rightarrow> thrown" where
  "type_error what prop =
     Err (JsError ''TypeError''
       (''Cannot read properties of '' @ what @ '' (reading '' @ [CHR 0x27] @ prop @ [CHR 0x27] @ '')''))"

text \<open>Truthiness, as \<open>!x\<close>, \<open>x ? a : b\<close> and \<open>x || y\<close> test it.\<close>

fun truthy :: "json option \<Rightarrow> bool" where
  "truthy None = False"
| "truthy (Some JNull) = False"
| "truthy (Some (JBool b)) = b"
| "truthy (Some (JNum n)) = (n \<noteq> 0)"
| "truthy (Some (JStr s)) = (s \<noteq> [])"
| "truthy (Some (JArr xs)) = True"
| "truthy (Some (JObj kvs)) = True"

text \<open>
  \<open>v.prop\<close> for the property names the server reads from upstream data
  (\<open>results\<close>, \<open>latitude\<close>, \<open>longitude\<close>, \<open>name\<close>, \<open>timezone\<close>, \<open>country_code\<close>,
  \<open>country\<close>): a \<open>TypeError\<close> on \<open>undefined\<close> and \<open>null\<close>, the own property of an
  object, \<open>undefined\<close> on every other value.
\<close>

fun own_prop :: "json \<Rightarrow> string \<Rightarrow> json option" where
  "own_prop (JObj kvs) k = map_of kvs k"
| "own_prop v k = None"

fun get_prop :: "json option \<Rightarrow> string \<Rightarrow> thrown + json option" where
  "get_prop None k = Inl (type_error ''undefined'' k)"
| "get_prop (Some JNull) k = Inl (type_error ''null'' k)"
| "get_prop (Some v) k = Inr (own_prop v k)"

text \<open>\<open>v.length\<close> of a truthy value \<open>v\<close>.\<close>

fun js_length :: "json \<Rightarrow> json option" where
  "js_length (JArr xs) = Some (JNum (real (length xs)))"
| "js_length (JStr s) = Some (JNum (real (length s)))"
| "js_length (JObj kvs) = map_of kvs ''length''"
| "js_length v = None"

text \<open>\<open>v[0]\<close> of a truthy value \<open>v\<close>.\<close>

fun js_first :: "json \<Rightarrow> json option" where
  "js_first (JArr xs) = (case xs of [] \<Rightarrow> None | x # _ \<Rightarrow> Some x)"
| "js_first (JStr s) = (case s of [] \<Rightarrow> None | c # _ \<Rightarrow> Some (JStr [c]))"
| "js_first (JObj kvs) = map_of kvs ''0''"
| "js_first v = None"

text \<open>\<open>String.prototype.includes\<close>: does \<open>sub\<close> occur in \<open>s\<close> as a contiguous block?\<close>

fun str_includes :: "string \<Rightarrow> string \<Rightarrow> bool" where
  "str_includes [] sub = (sub = [])"
| "str_includes (c # cs) sub = (prefix sub (c # cs) \<or> str_includes cs sub)"

text \<open>Decimal rendering of a non-negative integer inside a template literal.\<close>

definition digit :: "nat \<Rightarrow> char" where
  "digit d = ''0123456789'' ! d"

fun string_of_nat :: "nat \<Rightarrow> string" where
  "string_of_nat n =
     (if n < 10 then [digit n] else string_of_nat (n div 10) @ [digit (n mod 10)])"

declare string_of_nat.simps [simp del]

section \<open>geocodeCity with retry, backoff and timeout (sse-server.ts)\<close>

datatype body = BodyInvalid | BodyJson json

record response =
  status :: nat
  statusText :: string
  body :: body

text \<open>
  One call of \<open>fetch\<close> either rejects (a network failure, or the abort raised by
  the timeout timer) or resolves with a response, whose body either fails to
  parse (\<open>BodyInvalid\<close>) or parses to a JSON value.
\<close>

datatype fetch_outcome = Rejects thrown | Resolves response

definition ok :: "response \<Rightarrow> bool" where
  "ok r = (200 \<le> status r \<and> status r \<le> 299)"

record geo_location =
  latitude :: json
  longitude :: json
  name :: json
  country :: "json option"
  timezone :: json

definition city_not_found :: "string \<Rightarrow> string option \<Rightarrow> thrown" where
  "city_not_found city country' =
     new_Error (''City not found: \"'' @ city @ ''\"''
       @ (case country' of
            None \<Rightarrow> ''''
          | Some c \<Rightarrow> if c \<noteq> [] then '' in '' @ c else '''')
       @ ''. Please check the spelling and try again.'')"

text \<open>The statements of the \<open>try\<close> block after the body has been parsed to \<open>data\<close>.\<close>

definition check_data :: "string \<Rightarrow> string option \<Rightarrow> json \<Rightarrow> thrown + geo_location" where
  "check_data city country' data =
     (case get_prop (Some data) ''results'' of
        Inl e \<Rightarrow> Inl e
      | Inr None \<Rightarrow> Inl (city_not_found city country')
      | Inr (Some results) \<Rightarrow>
          if \<not> truthy (Some results) \<or> js_length results = Some (JNum 0)
          then Inl (city_not_found city country')
          else
            (case get_prop (js_first results) ''latitude'' of
               Inl e \<Rightarrow> Inl e
             | Inr lat \<Rightarrow>
                 let result = the (js_first results) in
                 if \<not> truthy lat
                    \<or> \<not> truthy (own_prop result ''longitude'')
                    \<or> \<not> truthy (own_prop result ''name'')
                    \<or> \<not> truthy (own_prop result ''timezone'')
                 then Inl (new_Error
                   ''Geocoding API returned incomplete data. The service may be experiencing issues.'')
                 else Inr \<lparr>latitude = the lat,
                           longitude = the (own_prop result ''longitude''),
                           name = the (own_prop result ''name''),
                           country =
                             (if truthy (own_prop result ''country_code'')
                              then own_prop result ''country_code''
                              else own_prop result ''country''),
                           timezone = the (own_prop result ''timezone'')\<rparr>))"

text \<open>The whole \<open>try\<close> block of one attempt, given what \<open>fetch\<close> did.\<close>

definition attempt_body :: "string \<Rightarrow> string option \<Rightarrow> fetch_outcome \<Rightarrow> thrown + geo_location" where
  "attempt_body city country' outcome =
     (case outcome of
        Rejects e \<Rightarrow> Inl e
      | Resolves r \<Rightarrow>
          if \<not> ok r then
            (if status r \<ge> 500 then
               Inl (new_Error (''Geocoding API server error ('' @ string_of_nat (status r) @ ''): ''
                      @ statusText r @ ''. The service may be temporarily down.''))
             else if status r = 429 then
               Inl (new_Error ''Geocoding API rate limit exceeded. Please try again later.'')
             else
               Inl (new_Error (''Geocoding API error ('' @ string_of_nat (status r) @ ''): ''
                      @ statusText r)))
          else
            (case body r of
               BodyInvalid \<Rightarrow>
                 Inl (new_Error
                   ''Geocoding API returned invalid JSON response. The service may be experiencing issues.'')
             | BodyJson data \<Rightarrow> check_data city country' data))"

text \<open>
  What the retry loop does that the caller can observe besides its result: the
  number of \<open>fetch\<close> calls made so far and the backoff waits, in milliseconds, in
  the order they were slept.
\<close>

record geo_trace =
  fetches :: nat
  waits :: "nat list"

text \<open>\<open>lastError = error instanceof Error ? error : new Error(String(error))\<close>\<close>

fun as_error :: "thrown \<Rightarrow> js_error" where
  "as_error (Err e) = e"
| "as_error (NonErr s) = JsError ''Error'' s"

text \<open>
  The guard of the \<open>catch\<close> block that rethrows at once: the message of
  \<open>lastError\<close> includes \<open>City not found\<close> or \<open>rate limit\<close>. Every other failure
  of the \<open>try\<close> block is retried while attempts remain.
\<close>

definition retryable :: "thrown \<Rightarrow> bool" where
  "retryable error =
     (\<not> (str_includes (message (as_error error)) ''City not found''
         \<or> str_includes (message (as_error error)) ''rate limit''))"

text \<open>\<open>error instanceof Error && error.name === 'AbortError'\<close>\<close>

fun is_abort :: "thrown \<Rightarrow> bool" where
  "is_abort (Err e) = (ename e = ''AbortError'')"
| "is_abort (NonErr s) = False"

text \<open>The value of \<open>lastError\<close> after the abort check: a timeout is re-labelled.\<close>

definition relabel :: "nat \<Rightarrow> thrown \<Rightarrow> js_error" where
  "relabel timeoutMs error =
     (if is_abort error then
        JsError ''Error'' (''Geocoding API request timed out after '' @ string_of_nat timeoutMs
          @ ''ms. The service may be slow or down.'')
      else as_error error)"

definition backoffMs :: "nat \<Rightarrow> nat" where
  "backoffMs attempt = 2 ^ attempt * 1000"

text \<open>
  The \<open>for\<close> loop of \<open>geocodeCity\<close> from a given value of \<open>attempt\<close> and of
  \<open>lastError\<close>. The environment \<open>fetch\<close> gives the outcome of the n-th call of
  \<open>fetch\<close> (counted from 0); each attempt makes one call. When the loop condition
  fails, the statement after the loop throws \<open>lastError\<close> or, if there is none,
  a fresh error.
\<close>

function geocode_loop ::
  "(nat \<Rightarrow> fetch_outcome) \<Rightarrow> string \<Rightarrow> string option \<Rightarrow> int \<Rightarrow> nat \<Rightarrow> nat
     \<Rightarrow> js_error option \<Rightarrow> geo_trace \<Rightarrow> (js_error + geo_location) \<times> geo_trace" where
  "geocode_loop fetch city country' maxRetries timeoutMs attempt lastError tr =
     (if \<not> int attempt < maxRetries then
        (Inl (case lastError of
                Some e \<Rightarrow> e
              | None \<Rightarrow> JsError ''Error'' ''Geocoding failed after all retry attempts''), tr)
      else
        (case attempt_body city country' (fetch (fetches tr)) of
           Inr location \<Rightarrow> (Inr location, tr\<lparr>fetches := fetches tr + 1\<rparr>)
         | Inl error \<Rightarrow>
             if \<not> retryable error then
               (Inl (as_error error), tr\<lparr>fetches := fetches tr + 1\<rparr>)
             else if int attempt < maxRetries - 1 then
               geocode_loop fetch city country' maxRetries timeoutMs (attempt + 1)
                 (Some (relabel timeoutMs error))
                 (tr\<lparr>fetches := fetches tr + 1, waits := waits tr @ [backoffMs attempt]\<rparr>)
             else
               (Inl (relabel timeoutMs error), tr\<lparr>fetches := fetches tr + 1\<rparr>)))"
  by pat_completeness auto
termination
  by (relation "measure (\<lambda>(fetch, city, country', maxRetries, timeoutMs, attempt, lastError, tr).
        nat (maxRetries - int attempt))") auto

declare geocode_loop.simps [simp del]

text \<open>
  \<open>geocodeCity(city, country, maxRetries = 3, timeoutMs = 10000)\<close>: an omitted
  argument is \<open>None\<close> and takes its default.
\<close>

fun or_default :: "'a option \<Rightarrow> 'a \<Rightarrow> 'a" where
  "or_default None d = d"
| "or_default (Some x) d = x"

definition geocodeCity ::
  "(nat \<Rightarrow> fetch_outcome) \<Rightarrow> string \<Rightarrow> string option \<Rightarrow> int option \<Rightarrow> nat option
     \<Rightarrow> (js_error + geo_location) \<times> geo_trace" where
  "geocodeCity fetch city country' maxRetries timeoutMs =
     geocode_loop fetch city country' (or_default maxRetries 3) (or_default timeoutMs 10000)
       0 None \<lparr>fetches = 0, waits = []\<rparr>"

text \<open>Upstream behaviours used as concrete inputs: the same response to every call.\<close>

definition always :: "nat \<Rightarrow> string \<Rightarrow> body \<Rightarrow> nat \<Rightarrow> fetch_outcome" where
  "always st txt b n = Resolves \<lparr>status = st, statusText = txt, body = b\<rparr>"

section \<open>The connection registry (SSE server with message routing)\<close>

text \<open>
  One row of the registry. The transport and the protocol server are opaque
  handles; a \<open>Date\<close> is its \<open>getTime()\<close>, in milliseconds.
\<close>

record ('t, 's) SSEConnection =
  sessionId :: string
  transport :: 't
  server :: 's
  createdAt :: int
  lastActivity :: int

text \<open>
  \<open>connections = new Map<string, SSEConnection>()\<close>: a JavaScript \<open>Map\<close> keeps its
  entries in insertion order with one entry per key, so it is an association list
  whose keys are distinct. \<open>Map.set\<close> replaces the value of a key that is present,
  in place, and appends a new key at the end, as \<open>AList.update\<close> does;
  \<open>Map.delete\<close> is \<open>AList.delete\<close>, \<open>Map.get\<close> is \<open>map_of\<close>.
\<close>

type_synonym ('t, 's) connections = "(string \<times> ('t, 's) SSEConnection) list"

text \<open>\<open>register(sessionId, transport, server)\<close>, with \<open>now = new Date()\<close>.\<close>

definition register ::
  "int \<Rightarrow> string \<Rightarrow> 't \<Rightarrow> 's \<Rightarrow> ('t, 's) connections \<Rightarrow> ('t, 's) connections" where
  "register now sid tr sv connections =
     AList.update sid
       \<lparr>sessionId = sid, transport = tr, server = sv, createdAt = now, lastActivity = now\<rparr>
       connections"

text \<open>
  \<open>get(sessionId)\<close>: the entry found is mutated in place, so the registry holds the
  touched entry that is returned.
\<close>

definition get ::
  "int \<Rightarrow> string \<Rightarrow> ('t, 's) connections
     \<Rightarrow> ('t, 's) SSEConnection option \<times> ('t, 's) connections" where
  "get now sid connections =
     (case map_of connections sid of
        None \<Rightarrow> (None, connections)
      | Some connection \<Rightarrow>
          (Some (connection\<lparr>lastActivity := now\<rparr>),
           AList.update sid (connection\<lparr>lastActivity := now\<rparr>) connections))"

definition remove :: "string \<Rightarrow> ('t, 's) connections \<Rightarrow> ('t, 's) connections" where
  "remove sid connections = AList.delete sid connections"

text \<open>
  \<open>cleanupStaleConnections()\<close>, with \<open>now = new Date()\<close>: the \<open>for\<close> loop over the
  entries, removing an entry while the iteration goes on. Only the entry being
  visited is ever removed, so the entries still to visit are those of the map at
  the start.
\<close>

definition cleanupStaleConnections :: "int \<Rightarrow> ('t, 's) connections \<Rightarrow> ('t, 's) connections" where
  "cleanupStaleConnections now connections =
     foldl (\<lambda>cs (sid, connection).
              if now - lastActivity connection > 30 * 60 * 1000 then remove sid cs else cs)
       connections connections"

definition shutdown :: "('t, 's) connections \<Rightarrow> ('t, 's) connections" where
  "shutdown connections = []"

section \<open>The tool-call handler (index.ts)\<close>

text \<open>
  The argument schemas are built from the combinators of the zod library:
  \<open>z.string()\<close> accepts a string, \<open>.optional()\<close> also accepts \<open>undefined\<close>,
  \<open>z.number()\<close> accepts a number and checks \<open>.min\<close> and \<open>.max\<close>, \<open>.default(d)\<close>
  replaces \<open>undefined\<close> by \<open>d\<close>, and \<open>z.object\<close> parses every field and fails with
  the issues of all of them. An issue names the path of the field it is about.
\<close>

datatype zod_issue = InvalidType "string list" | TooSmall "string list" | TooBig "string list"

fun z_string :: "string \<Rightarrow> json option \<Rightarrow> zod_issue list + string" where
  "z_string k (Some (JStr s)) = Inr s"
| "z_string k v = Inl [InvalidType [k]]"

fun z_string_optional :: "string \<Rightarrow> json option \<Rightarrow> zod_issue list + string option" where
  "z_string_optional k None = Inr None"
| "z_string_optional k (Some (JStr s)) = Inr (Some s)"
| "z_string_optional k v = Inl [InvalidType [k]]"

fun z_number :: "string \<Rightarrow> json option \<Rightarrow> zod_issue list + real" where
  "z_number k (Some (JNum n)) = Inr n"
| "z_number k v = Inl [InvalidType [k]]"

fun z_min_max :: "string \<Rightarrow> real \<Rightarrow> real \<Rightarrow> zod_issue list + real \<Rightarrow> zod_issue list + real" where
  "z_min_max k lo hi (Inl issues) = Inl issues"
| "z_min_max k lo hi (Inr n) =
     (if n < lo then Inl [TooSmall [k]] else if hi < n then Inl [TooBig [k]] else Inr n)"

fun z_default :: "'a \<Rightarrow> (json option \<Rightarrow> zod_issue list + 'a) \<Rightarrow> json option \<Rightarrow> zod_issue list + 'a" where
  "z_default d schema None = Inr d"
| "z_default d schema (Some v) = schema (Some v)"

text \<open>Two fields of a \<open>z.object\<close>: both values, or the issues of both.\<close>

fun z_and :: "zod_issue list + 'a \<Rightarrow> zod_issue list + 'b \<Rightarrow> zod_issue list + 'a \<times> 'b" where
  "z_and (Inr a) (Inr b) = Inr (a, b)"
| "z_and (Inl i) (Inr b) = Inl i"
| "z_and (Inr a) (Inl j) = Inl j"
| "z_and (Inl i) (Inl j) = Inl (i @ j)"

text \<open>\<open>z.object({...}).parse(args)\<close>: anything but an object is an issue at the root.\<close>

fun z_object ::
  "((string \<Rightarrow> json option) \<Rightarrow> zod_issue list + 'a) \<Rightarrow> json option \<Rightarrow> zod_issue list + 'a" where
  "z_object shape (Some (JObj kvs)) = shape (map_of kvs)"
| "z_object shape v = Inl [InvalidType []]"

definition GetCurrentWeatherArgsSchema ::
  "json option \<Rightarrow> zod_issue list + string \<times> string option" where
  "GetCurrentWeatherArgsSchema =
     z_object (\<lambda>arg. z_and (z_string ''city'' (arg ''city''))
                            (z_string_optional ''country'' (arg ''country'')))"

definition GetWeatherForecastArgsSchema ::
  "json option \<Rightarrow> zod_issue list + string \<times> string option \<times> real" where
  "GetWeatherForecastArgsSchema =
     z_object (\<lambda>arg. z_and (z_string ''city'' (arg ''city''))
                     (z_and (z_string_optional ''country'' (arg ''country''))
                            (z_default 7 (\<lambda>v. z_min_max ''days'' 1 16 (z_number ''days'' v))
                               (arg ''days''))))"

definition GetWeatherAlertsArgsSchema ::
  "json option \<Rightarrow> zod_issue list + string \<times> string option" where
  "GetWeatherAlertsArgsSchema =
     z_object (\<lambda>arg. z_and (z_string ''city'' (arg ''city''))
                            (z_string_optional ''country'' (arg ''country'')))"

definition GetGrowingConditionsArgsSchema ::
  "json option \<Rightarrow> zod_issue list + string \<times> string option \<times> real" where
  "GetGrowingConditionsArgsSchema =
     z_object (\<lambda>arg. z_and (z_string ''city'' (arg ''city''))
                     (z_and (z_string_optional ''country'' (arg ''country''))
                            (z_default 10 (z_number ''base_temp'') (arg ''base_temp''))))"

definition GetHistoricalWeatherArgsSchema ::
  "json option \<Rightarrow> zod_issue list + string \<times> string option \<times> real \<times> real" where
  "GetHistoricalWeatherArgsSchema =
     z_object (\<lambda>arg. z_and (z_string ''city'' (arg ''city''))
                     (z_and (z_string_optional ''country'' (arg ''country''))
                     (z_and (z_min_max ''month'' 1 12 (z_number ''month'' (arg ''month'')))
                            (z_default 1 (\<lambda>v. z_min_max ''years_back'' 1 10 (z_number ''years_back'' v))
                               (arg ''years_back'')))))"

text \<open>
  What the handler calls and does not decide itself: the five fetch functions,
  each of which returns its data or throws; \<open>JSON.stringify(data, null, 2)\<close>; and
  the message zod gives a \<open>ZodError\<close> for a list of issues.
\<close>

record tool_env =
  fetchCurrentWeather :: "string \<Rightarrow> string option \<Rightarrow> thrown + json"
  fetchWeatherForecast :: "string \<Rightarrow> string option \<Rightarrow> real \<Rightarrow> thrown + json"
  fetchWeatherAlerts :: "string \<Rightarrow> string option \<Rightarrow> thrown + json"
  fetchGrowingConditions :: "string \<Rightarrow> string option \<Rightarrow> real \<Rightarrow> thrown + json"
  fetchHistoricalWeather :: "string \<Rightarrow> real \<Rightarrow> string option \<Rightarrow> real \<Rightarrow> thrown + json"
  stringify :: "json \<Rightarrow> string"
  zod_message :: "zod_issue list \<Rightarrow> string"

text \<open>\<open>Schema.parse(request.params.arguments)\<close>: the parsed arguments, or a \<open>ZodError\<close> thrown.\<close>

definition parse :: "tool_env \<Rightarrow> (json option \<Rightarrow> zod_issue list + 'a) \<Rightarrow> json option \<Rightarrow> thrown + 'a" where
  "parse env schema arguments =
     (case schema arguments of
        Inl issues \<Rightarrow> Inl (Err (JsError ''ZodError'' (zod_message env issues)))
      | Inr args \<Rightarrow> Inr args)"

datatype content_item = TextContent string

text \<open>The result of a tool call; \<open>isError\<close> is \<open>None\<close> where the object has no such property.\<close>

record tool_result =
  content :: "content_item list"
  isError :: "bool option"

definition text_result :: "tool_env \<Rightarrow> json \<Rightarrow> tool_result" where
  "text_result env data = \<lparr>content = [TextContent (stringify env data)], isError = None\<rparr>"

text \<open>The \<open>try\<close> block of the handler: the chain of tests on \<open>request.params.name\<close>.\<close>

definition try_call_tool :: "tool_env \<Rightarrow> string \<Rightarrow> json option \<Rightarrow> thrown + tool_result" where
  "try_call_tool env name' arguments =
     (if name' = ''get_current_weather'' then
        (case parse env GetCurrentWeatherArgsSchema arguments of
           Inl e \<Rightarrow> Inl e
         | Inr (city, country') \<Rightarrow>
             (case fetchCurrentWeather env city country' of
                Inl e \<Rightarrow> Inl e
              | Inr weatherData \<Rightarrow> Inr (text_result env weatherData)))
      else if name' = ''get_weather_forecast'' then
        (case parse env GetWeatherForecastArgsSchema arguments of
           Inl e \<Rightarrow> Inl e
         | Inr (city, country', days) \<Rightarrow>
             (case fetchWeatherForecast env city country' days of
                Inl e \<Rightarrow> Inl e
              | Inr forecastData \<Rightarrow> Inr (text_result env forecastData)))
      else if name' = ''get_weather_alerts'' then
        (case parse env GetWeatherAlertsArgsSchema arguments of
           Inl e \<Rightarrow> Inl e
         | Inr (city, country') \<Rightarrow>
             (case fetchWeatherAlerts env city country' of
                Inl e \<Rightarrow> Inl e
              | Inr alertsData \<Rightarrow> Inr (text_result env alertsData)))
      else if name' = ''get_growing_conditions'' then
        (case parse env GetGrowingConditionsArgsSchema arguments of
           Inl e \<Rightarrow> Inl e
         | Inr (city, country', base_temp) \<Rightarrow>
             (case fetchGrowingConditions env city country' base_temp of
                Inl e \<Rightarrow> Inl e
              | Inr growingData \<Rightarrow> Inr (text_result env growingData)))
      else if name' = ''get_historical_weather'' then
        (case parse env GetHistoricalWeatherArgsSchema arguments of
           Inl e \<Rightarrow> Inl e
         | Inr (city, country', month, years_back) \<Rightarrow>
             (case fetchHistoricalWeather env city month country' years_back of
                Inl e \<Rightarrow> Inl e
              | Inr historicalData \<Rightarrow> Inr (text_result env historicalData)))
      else Inl (new_Error (''Unknown tool: '' @ name')))"

text \<open>\<open>error instanceof Error ? error.message : String(error)\<close>\<close>

fun error_text :: "thrown \<Rightarrow> string" where
  "error_text (Err e) = message e"
| "error_text (NonErr s) = s"

text \<open>
  The handler registered for \<open>CallToolRequestSchema\<close>: the \<open>try\<close> block and its
  \<open>catch\<close>. \<open>Inl\<close> would be an exception leaving the handler.
\<close>

definition CallToolRequest_handler :: "tool_env \<Rightarrow> string \<Rightarrow> json option \<Rightarrow> thrown + tool_result" where
  "CallToolRequest_handler env name' arguments =
     (case try_call_tool env name' arguments of
        Inr result \<Rightarrow> Inr result
      | Inl error \<Rightarrow>
          Inr \<lparr>content = [TextContent (''Error: '' @ error_text error)], isError = Some True\<rparr>)"

text \<open>The names the handler tests \<open>request.params.name\<close> against, in its order.\<close>

definition tool_names :: "string list" where
  "tool_names = [''get_current_weather'', ''get_weather_forecast'', ''get_weather_alerts'',
                 ''get_growing_conditions'', ''get_historical_weather'']"

text \<open>
  The issues, if any, that the schema of the named tool finds in the arguments:
  the schema is the one the handler parses with in the branch of that name.
\<close>

definition schema_issues :: "string \<Rightarrow> json option \<Rightarrow> zod_issue list option" where
  "schema_issues name' arguments =
     (if name' = ''get_current_weather'' then
        (case GetCurrentWeatherArgsSchema arguments of Inl issues \<Rightarrow> Some issues | Inr args \<Rightarrow> None)
      else if name' = ''get_weather_forecast'' then
        (case GetWeatherForecastArgsSchema arguments of Inl issues \<Rightarrow> Some issues | Inr args \<Rightarrow> None)
      else if name' = ''get_weather_alerts'' then
        (case GetWeatherAlertsArgsSchema arguments of Inl issues \<Rightarrow> Some issues | Inr args \<Rightarrow> None)
      else if name' = ''get_growing_conditions'' then
        (case GetGrowingConditionsArgsSchema arguments of Inl issues \<Rightarrow> Some issues | Inr args \<Rightarrow> None)
      else if name' = ''get_historical_weather'' then
        (case GetHistoricalWeatherArgsSchema arguments of Inl issues \<Rightarrow> Some issues | Inr args \<Rightarrow> None)
      else None)"

text \<open>
  A concrete environment used as an input: every fetch function fails, the
  alerts with a thrown value that is not an \<open>Error\<close>.
\<close>

definition failing_env :: tool_env where
  "failing_env =
     \<lparr>fetchCurrentWeather = (\<lambda>city country'. Inl (new_Error (''City not found: '' @ city))),
      fetchWeatherForecast =
        (\<lambda>city country' days. Inl (new_Error ''Weather API error: Service Unavailable'')),
      fetchWeatherAlerts = (\<lambda>city country'. Inl (NonErr ''boom'')),
      fetchGrowingConditions =
        (\<lambda>city country' base_temp. Inl (new_Error ''Weather API error: Bad Gateway'')),
      fetchHistoricalWeather =
        (\<lambda>city month country' years_back.
           Inl (new_Error ''Historical Weather API error: Not Found'')),
      stringify = (\<lambda>data. ''null''),
      zod_message = (\<lambda>issues. ''invalid arguments'')\<rparr>"

section \<open>Facts about strings\<close>

lemma str_includes_sublist: "str_includes s sub \<longleftrightarrow> sublist sub s"
  by (induction s) (auto simp: sublist_Cons_right)

lemma str_includes_skip:
  "\<forall>c \<in> set ds. c \<noteq> m \<Longrightarrow> str_includes (ds @ rest) (m # ms) = str_includes rest (m # ms)"
  by (induction ds) auto

lemma digit_in: "d < 10 \<Longrightarrow> digit d \<in> set ''0123456789''"
  unfolding digit_def by (rule nth_mem) simp

lemma string_of_nat_digits: "set (string_of_nat n) \<subseteq> set ''0123456789''"
proof (induction n rule: string_of_nat.induct)
  case (1 n)
  show ?case
  proof (cases "n < 10")
    case True
    then show ?thesis using digit_in [of n] by (subst string_of_nat.simps) simp
  next
    case False
    have "digit (n mod 10) \<in> set ''0123456789''" by (rule digit_in) simp
    with False 1 show ?thesis by (subst string_of_nat.simps) simp
  qed
qed

lemma string_of_nat_no_C: "\<forall>c \<in> set (string_of_nat n). c \<noteq> CHR ''C''"
  using string_of_nat_digits [of n] by auto

lemma string_of_nat_no_r: "\<forall>c \<in> set (string_of_nat n). c \<noteq> CHR ''r''"
  using string_of_nat_digits [of n] by auto

text \<open>
  The message of a client error holds a marker of the \<open>catch\<close> guard only if the
  status text does.
\<close>

lemma client_error_message_City:
  "str_includes (''Geocoding API error ('' @ string_of_nat n @ ''): '' @ txt) ''City not found''
     = str_includes txt ''City not found''"
  using str_includes_skip [OF string_of_nat_no_C, of n "''): '' @ txt"]
  by simp

lemma client_error_message_rate:
  "str_includes (''Geocoding API error ('' @ string_of_nat n @ ''): '' @ txt) ''rate limit''
     = str_includes txt ''rate limit''"
  using str_includes_skip [OF string_of_nat_no_r, of n "''): '' @ txt"]
  by simp

lemma str_includes_sep:
  assumes "c \<notin> set sub"
  shows "str_includes (a @ c # b) sub \<longleftrightarrow> str_includes a sub \<or> str_includes b sub"
proof -
  have "sublist sub (a @ c # b) \<longleftrightarrow> sublist sub a \<or> sublist sub b"
  proof
    assume "sublist sub (a @ c # b)"
    then consider "sublist sub a" | "sublist sub (c # b)"
      | xs1 xs2 where "sub = xs1 @ xs2" "suffix xs1 a" "prefix xs2 (c # b)"
      unfolding sublist_append by blast
    then show "sublist sub a \<or> sublist sub b"
    proof cases
      case 1 then show ?thesis by simp
    next
      case 2
      then have "prefix sub (c # b) \<or> sublist sub b" by (simp add: sublist_Cons_right)
      moreover have "prefix sub (c # b) \<Longrightarrow> sub = []" using assms by (cases sub) auto
      ultimately show ?thesis by auto
    next
      case 3
      have "xs2 = []" using 3(1,3) assms by (cases xs2) auto
      with 3 have "suffix sub a" by simp
      then show ?thesis by (simp add: suffix_imp_sublist)
    qed
  next
    assume "sublist sub a \<or> sublist sub b"
    then show "sublist sub (a @ c # b)"
      by (auto simp: sublist_append sublist_Cons_right)
  qed
  then show ?thesis by (simp add: str_includes_sublist)
qed

lemma server_error_message:
  "str_includes (''Geocoding API server error ('' @ string_of_nat n @ ''): '' @ txt
       @ ''. The service may be temporarily down.'') ''City not found''
     = str_includes txt ''City not found''"
  "str_includes (''Geocoding API server error ('' @ string_of_nat n @ ''): '' @ txt
       @ ''. The service may be temporarily down.'') ''rate limit''
     = str_includes txt ''rate limit''"
proof -
  have a: "str_includes (''Geocoding API server error ('' @ string_of_nat n @ ''): '' @ txt) ''City not found''
     = str_includes txt ''City not found''"
    using str_includes_skip [OF string_of_nat_no_C, of n "''): '' @ txt"] by simp
  have b: "str_includes (''Geocoding API server error ('' @ string_of_nat n @ ''): '' @ txt) ''rate limit''
     = str_includes txt ''rate limit''"
    using str_includes_skip [OF string_of_nat_no_r, of n "''): '' @ txt"] by simp
  show "str_includes (''Geocoding API server error ('' @ string_of_nat n @ ''): '' @ txt
       @ ''. The service may be temporarily down.'') ''City not found''
     = str_includes txt ''City not found''"
    using str_includes_sep [of "CHR ''.''" "''City not found''"
        "''Geocoding API server error ('' @ string_of_nat n @ ''): '' @ txt"
        "'' The service may be temporarily down.''"] a
    by simp
  show "str_includes (''Geocoding API server error ('' @ string_of_nat n @ ''): '' @ txt
       @ ''. The service may be temporarily down.'') ''rate limit''
     = str_includes txt ''rate limit''"
    using str_includes_sep [of "CHR ''.''" "''rate limit''"
        "''Geocoding API server error ('' @ string_of_nat n @ ''): '' @ txt"
        "'' The service may be temporarily down.''"] b
    by simp
qed


section \<open>How one attempt fails\<close>

lemma attempt_body_server_error:
  assumes "500 \<le> status r"
  shows "attempt_body city country' (Resolves r)
           = Inl (new_Error (''Geocoding API server error ('' @ string_of_nat (status r) @ ''): ''
                    @ statusText r @ ''. The service may be temporarily down.''))"
  using assms by (simp add: attempt_body_def ok_def)

lemma server_error_retryable:
  assumes "500 \<le> status r"
  shows "retryable (projl (attempt_body city country' (Resolves r)))
           \<longleftrightarrow> \<not> str_includes (statusText r) ''City not found'' \<and> \<not> str_includes (statusText r) ''rate limit''"
  by (simp only: attempt_body_server_error [OF assms] sum.sel retryable_def new_Error_def
        as_error.simps js_error.sel server_error_message de_Morgan_disj)

lemma attempt_body_client_error:
  assumes "400 \<le> status r" "status r < 500" "status r \<noteq> 429"
  shows "attempt_body city country' (Resolves r)
           = Inl (new_Error (''Geocoding API error ('' @ string_of_nat (status r) @ ''): '' @ statusText r))"
  using assms by (simp add: attempt_body_def ok_def)

lemma attempt_body_invalid_json:
  assumes "ok r" "body r = BodyInvalid"
  shows "attempt_body city country' (Resolves r)
           = Inl (new_Error ''Geocoding API returned invalid JSON response. The service may be experiencing issues.'')"
  using assms by (simp add: attempt_body_def)

lemma invalid_json_retryable:
  "retryable (new_Error ''Geocoding API returned invalid JSON response. The service may be experiencing issues.'')"
  by (simp add: retryable_def new_Error_def)

lemma attempt_body_rate_limit:
  assumes "status r = 429"
  shows "attempt_body city country' (Resolves r)
           = Inl (new_Error ''Geocoding API rate limit exceeded. Please try again later.'')"
  using assms by (simp add: attempt_body_def ok_def)

lemma attempt_body_no_results:
  assumes "ok r" "body r = BodyJson (JObj kvs)"
    and "\<not> truthy (map_of kvs ''results'') \<or> map_of kvs ''results'' = Some (JArr [])"
  shows "attempt_body city country' (Resolves r) = Inl (city_not_found city country')"
  using assms by (auto simp: attempt_body_def check_data_def split: option.splits)

section \<open>One iteration of the retry loop\<close>

lemma geocode_loop_terminal:
  assumes "int attempt < maxRetries"
    and "attempt_body city country' (fetch (fetches tr)) = Inl e"
    and "\<not> retryable e"
  shows "geocode_loop fetch city country' maxRetries timeoutMs attempt lastError tr
           = (Inl (as_error e), tr\<lparr>fetches := fetches tr + 1\<rparr>)"
  using assms by (subst geocode_loop.simps) simp

lemma geocode_loop_retry:
  assumes "int attempt < maxRetries - 1"
    and "attempt_body city country' (fetch (fetches tr)) = Inl e"
    and "retryable e"
  shows "geocode_loop fetch city country' maxRetries timeoutMs attempt lastError tr
           = geocode_loop fetch city country' maxRetries timeoutMs (attempt + 1)
               (Some (relabel timeoutMs e))
               (tr\<lparr>fetches := fetches tr + 1, waits := waits tr @ [backoffMs attempt]\<rparr>)"
  using assms by (subst geocode_loop.simps) simp

lemma geocode_loop_last:
  assumes "int attempt = maxRetries - 1"
    and "attempt_body city country' (fetch (fetches tr)) = Inl e"
    and "retryable e"
  shows "geocode_loop fetch city country' maxRetries timeoutMs attempt lastError tr
           = (Inl (relabel timeoutMs e), tr\<lparr>fetches := fetches tr + 1\<rparr>)"
  using assms by (subst geocode_loop.simps) simp

lemma rate_limit_not_retryable:
  "\<not> retryable (new_Error ''Geocoding API rate limit exceeded. Please try again later.'')"
  by (simp add: retryable_def new_Error_def)

lemma city_not_found_not_retryable: "\<not> retryable (city_not_found city country')"
  by (simp add: retryable_def new_Error_def city_not_found_def)

text \<open>
  When every remaining attempt fails with a retryable failure, the loop runs to the
  last attempt, sleeping the backoff of each attempt but the last.
\<close>

lemma geocode_loop_exhaust:
  assumes "n = nat maxRetries - 1 - attempt"
    and "int attempt < maxRetries"
    and "\<forall>k. int (attempt + k) < maxRetries \<longrightarrow>
           (\<exists>e. attempt_body city country' (fetch (fetches tr + k)) = Inl e \<and> retryable e)"
  shows "geocode_loop fetch city country' maxRetries timeoutMs attempt lastError tr
           = (Inl (relabel timeoutMs (projl (attempt_body city country' (fetch (fetches tr + n))))),
              \<lparr>fetches = fetches tr + n + 1,
               waits = waits tr @ map backoffMs [attempt..<attempt + n]\<rparr>)"
  using assms
proof (induction n arbitrary: attempt lastError tr)
  case 0
  from "0.prems"(3) [rule_format, of 0] "0.prems"(2)
  obtain e where e: "attempt_body city country' (fetch (fetches tr)) = Inl e" "retryable e"
    by auto
  from "0.prems"(1,2) have "int attempt = maxRetries - 1" by linarith
  from geocode_loop_last [where fetch = fetch and tr = tr, OF this e] e(1) show ?case by simp
next
  case (Suc n)
  from Suc.prems(3) [rule_format, of 0] Suc.prems(2)
  obtain e where e: "attempt_body city country' (fetch (fetches tr)) = Inl e" "retryable e"
    by auto
  from Suc.prems(1) have lt: "int attempt < maxRetries - 1" by linarith
  let ?tr = "tr\<lparr>fetches := fetches tr + 1, waits := waits tr @ [backoffMs attempt]\<rparr>"
  have n: "n = nat maxRetries - 1 - (attempt + 1)" using Suc.prems(1) by linarith
  have lt': "int (attempt + 1) < maxRetries" using lt by linarith
  have all: "\<forall>k. int (attempt + 1 + k) < maxRetries \<longrightarrow>
           (\<exists>e. attempt_body city country' (fetch (fetches ?tr + k)) = Inl e \<and> retryable e)"
  proof (intro allI impI)
    fix k assume "int (attempt + 1 + k) < maxRetries"
    then have "int (attempt + (k + 1)) < maxRetries" by (simp add: add.commute add.left_commute)
    from Suc.prems(3) [rule_format, OF this]
    show "\<exists>e. attempt_body city country' (fetch (fetches ?tr + k)) = Inl e \<and> retryable e"
      by (simp add: add.commute add.left_commute)
  qed
  from Suc.IH [where tr = "?tr" and attempt = "attempt + 1", OF n lt' all, of "Some (relabel timeoutMs e)"] geocode_loop_retry [where fetch = fetch and tr = tr, OF lt e]
  show ?case by (simp add: upt_rec [of attempt] add.commute add.left_commute)
qed

section \<open>Claims about geocodeCity\<close>

text \<open>
  C1, as the specification states it: a response with a 4xx status other than 429
  ends \<open>geocodeCity\<close> on the attempt that received it, with no retry and no
  backoff. The code does otherwise: when every call answers 404 Not Found, three
  attempts are made, with waits of 1000 ms and 2000 ms between them.
\<close>

theorem client_error_retried_counterexample:
  "geocodeCity (always 404 ''Not Found'' BodyInvalid) ''Atlantis'' None None None
     = (Inl (JsError ''Error'' ''Geocoding API error (404): Not Found''),
        \<lparr>fetches = 3, waits = [1000, 2000]\<rparr>)"
  by (simp add: geocodeCity_def geocode_loop.simps always_def attempt_body_def ok_def
        new_Error_def retryable_def relabel_def backoffMs_def string_of_nat.simps digit_def)

text \<open>
  C1, amended: a response with a 4xx status other than 429, whose status text
  holds neither \<open>City not found\<close> nor \<open>rate limit\<close>, is retried like any other
  failure. While an attempt remains the loop counts the call, sleeps
  \<open>2 ^ attempt * 1000\<close> ms and goes to the next attempt; only the last attempt
  surfaces the error \<open>Geocoding API error (status): statusText\<close>.
\<close>

theorem client_error_is_retried:
  assumes "int attempt < maxRetries"
    and "fetch (fetches tr) = Resolves r"
    and "400 \<le> status r" and "status r < 500" and "status r \<noteq> 429"
    and "\<not> str_includes (statusText r) ''City not found''"
    and "\<not> str_includes (statusText r) ''rate limit''"
  shows "geocode_loop fetch city country' maxRetries timeoutMs attempt lastError tr
           = (if int attempt < maxRetries - 1 then
                geocode_loop fetch city country' maxRetries timeoutMs (attempt + 1)
                  (Some (JsError ''Error''
                     (''Geocoding API error ('' @ string_of_nat (status r) @ ''): '' @ statusText r)))
                  (tr\<lparr>fetches := fetches tr + 1, waits := waits tr @ [2 ^ attempt * 1000]\<rparr>)
              else
                (Inl (JsError ''Error''
                   (''Geocoding API error ('' @ string_of_nat (status r) @ ''): '' @ statusText r)),
                 tr\<lparr>fetches := fetches tr + 1\<rparr>))"
proof -
  let ?e = "new_Error (''Geocoding API error ('' @ string_of_nat (status r) @ ''): '' @ statusText r)"
  have body: "attempt_body city country' (fetch (fetches tr)) = Inl ?e"
    using assms(2) attempt_body_client_error [OF assms(3,4,5)] by simp
  have retry: "retryable ?e"
    using assms(6,7)
    by (simp only: retryable_def new_Error_def as_error.simps js_error.sel
          client_error_message_City client_error_message_rate) simp
  have relabel: "relabel timeoutMs ?e
      = JsError ''Error'' (''Geocoding API error ('' @ string_of_nat (status r) @ ''): '' @ statusText r)"
    by (simp add: relabel_def new_Error_def)
  show ?thesis
  proof (cases "int attempt < maxRetries - 1")
    case True
    from geocode_loop_retry [where fetch = fetch and tr = tr, OF True body retry] True relabel
    show ?thesis by (simp add: backoffMs_def)
  next
    case False
    with assms(1) have "int attempt = maxRetries - 1" by linarith
    from geocode_loop_last [where fetch = fetch and tr = tr, OF this body retry] False relabel
    show ?thesis by simp
  qed
qed

theorem client_error_is_retried_witness:
  "geocode_loop (always 404 ''Not Found'' BodyInvalid) ''Atlantis'' None 3 10000 0 None
      \<lparr>fetches = 0, waits = []\<rparr>
     = geocode_loop (always 404 ''Not Found'' BodyInvalid) ''Atlantis'' None 3 10000 1
         (Some (JsError ''Error'' ''Geocoding API error (404): Not Found''))
         \<lparr>fetches = 1, waits = [1000]\<rparr>"
  using client_error_is_retried [of 0 3 "always 404 ''Not Found'' BodyInvalid"
      "\<lparr>fetches = 0, waits = []\<rparr>"
      "\<lparr>status = 404, statusText = ''Not Found'', body = BodyInvalid\<rparr>"
      "''Atlantis''" None 10000 None]
  by (simp add: always_def string_of_nat.simps digit_def)

text \<open>
  C2, as the specification states it: a body that fails to parse as JSON ends
  \<open>geocodeCity\<close> on that attempt, consuming no further attempt. The code does
  otherwise: when every call answers 200 with an unparsable body, three attempts
  are made, with waits of 1000 ms and 2000 ms between them.
\<close>

theorem invalid_json_retried_counterexample:
  "geocodeCity (always 200 ''OK'' BodyInvalid) ''Manila'' None None None
     = (Inl (JsError ''Error''
          ''Geocoding API returned invalid JSON response. The service may be experiencing issues.''),
        \<lparr>fetches = 3, waits = [1000, 2000]\<rparr>)"
  by (simp add: geocodeCity_def geocode_loop.simps always_def attempt_body_def ok_def
        new_Error_def retryable_def relabel_def backoffMs_def)

text \<open>
  C2, amended: a response with a successful status whose body fails to parse as
  JSON is retried like any other failure. While an attempt remains the loop
  counts the call, sleeps \<open>2 ^ attempt * 1000\<close> ms and goes to the next attempt;
  only the last attempt surfaces the invalid-JSON error.
\<close>

theorem invalid_json_is_retried:
  assumes "int attempt < maxRetries"
    and "fetch (fetches tr) = Resolves r"
    and "ok r"
    and "body r = BodyInvalid"
  shows "geocode_loop fetch city country' maxRetries timeoutMs attempt lastError tr
           = (if int attempt < maxRetries - 1 then
                geocode_loop fetch city country' maxRetries timeoutMs (attempt + 1)
                  (Some (JsError ''Error''
                     ''Geocoding API returned invalid JSON response. The service may be experiencing issues.''))
                  (tr\<lparr>fetches := fetches tr + 1, waits := waits tr @ [2 ^ attempt * 1000]\<rparr>)
              else
                (Inl (JsError ''Error''
                   ''Geocoding API returned invalid JSON response. The service may be experiencing issues.''),
                 tr\<lparr>fetches := fetches tr + 1\<rparr>))"
proof -
  let ?e = "new_Error ''Geocoding API returned invalid JSON response. The service may be experiencing issues.''"
  have body: "attempt_body city country' (fetch (fetches tr)) = Inl ?e"
    using assms(2) attempt_body_invalid_json [OF assms(3,4)] by simp
  have relabel: "relabel timeoutMs ?e
      = JsError ''Error'' ''Geocoding API returned invalid JSON response. The service may be experiencing issues.''"
    by (simp add: relabel_def new_Error_def)
  show ?thesis
  proof (cases "int attempt < maxRetries - 1")
    case True
    from geocode_loop_retry [where fetch = fetch and tr = tr, OF True body invalid_json_retryable]
      True relabel
    show ?thesis by (simp add: backoffMs_def)
  next
    case False
    with assms(1) have "int attempt = maxRetries - 1" by linarith
    from geocode_loop_last [where fetch = fetch and tr = tr, OF this body invalid_json_retryable]
      False relabel
    show ?thesis by simp
  qed
qed

theorem invalid_json_is_retried_witness:
  "geocode_loop (always 200 ''OK'' BodyInvalid) ''Manila'' None 3 10000 2
      (Some (JsError ''Error''
         ''Geocoding API returned invalid JSON response. The service may be experiencing issues.''))
      \<lparr>fetches = 2, waits = [1000, 2000]\<rparr>
     = (Inl (JsError ''Error''
          ''Geocoding API returned invalid JSON response. The service may be experiencing issues.''),
        \<lparr>fetches = 3, waits = [1000, 2000]\<rparr>)"
  using invalid_json_is_retried [of 2 3 "always 200 ''OK'' BodyInvalid"
      "\<lparr>fetches = 2, waits = [1000, 2000]\<rparr>"
      "\<lparr>status = 200, statusText = ''OK'', body = BodyInvalid\<rparr>"
      "''Manila''" None 10000
      "Some (JsError ''Error''
         ''Geocoding API returned invalid JSON response. The service may be experiencing issues.'')"]
  by (simp add: always_def ok_def)

text \<open>
  C3: if every attempt fails with a retryable failure (one that the guard of the
  \<open>catch\<close> block does not rethrow), and the budget \<open>maxRetries\<close> (default 3) is
  positive, then \<open>geocodeCity\<close> makes exactly \<open>maxRetries\<close> calls of \<open>fetch\<close>,
  sleeps \<open>2 ^ attempt * 1000\<close> ms after each attempt but the last, and throws the
  error of the last attempt (re-labelled as a timeout if it was an abort). A
  response with a status of 500 or more is such a failure when its status text
  holds neither marker of the guard (\<open>server_error_retryable\<close>). The witness is
  HTTP 503 on every attempt with the default budget: 3 calls, waits of 1000 ms
  and 2000 ms.
\<close>

theorem geocodeCity_exhausts_retries:
  assumes "0 < or_default maxRetries 3"
    and "\<forall>i. int i < or_default maxRetries 3 \<longrightarrow>
           (\<exists>e. attempt_body city country' (fetch i) = Inl e \<and> retryable e)"
  shows "geocodeCity fetch city country' maxRetries timeoutMs
           = (Inl (relabel (or_default timeoutMs 10000)
                     (projl (attempt_body city country' (fetch (nat (or_default maxRetries 3) - 1))))),
              \<lparr>fetches = nat (or_default maxRetries 3),
               waits = map (\<lambda>attempt. 2 ^ attempt * 1000) [0..<nat (or_default maxRetries 3) - 1]\<rparr>)"
proof -
  let ?m = "or_default maxRetries 3"
  let ?tr = "\<lparr>fetches = 0, waits = []\<rparr>"
  have all: "\<forall>k. int (0 + k) < ?m \<longrightarrow>
           (\<exists>e. attempt_body city country' (fetch (fetches ?tr + k)) = Inl e \<and> retryable e)"
    using assms(2) by simp
  have bo: "backoffMs = (\<lambda>attempt. 2 ^ attempt * 1000)"
    by (rule ext) (simp add: backoffMs_def)
  from geocode_loop_exhaust [where fetch = fetch and tr = ?tr and attempt = 0 and maxRetries = ?m,
      OF _ _ all, of "nat ?m - 1" "or_default timeoutMs 10000" None] assms(1)
  show ?thesis
    by (simp add: geocodeCity_def bo)
qed

theorem geocodeCity_exhausts_retries_witness:
  "geocodeCity (always 503 ''Service Unavailable'' BodyInvalid) ''Manila'' None None None
     = (Inl (JsError ''Error''
          ''Geocoding API server error (503): Service Unavailable. The service may be temporarily down.''),
        \<lparr>fetches = 3, waits = [1000, 2000]\<rparr>)"
proof -
  have retry: "\<forall>i. int i < or_default None 3 \<longrightarrow>
      (\<exists>e. attempt_body ''Manila'' None (always 503 ''Service Unavailable'' BodyInvalid i) = Inl e
            \<and> retryable e)"
    by (simp add: always_def attempt_body_def ok_def retryable_def new_Error_def
          string_of_nat.simps digit_def)
  have upt2: "[0..<2] = [0, Suc 0]" by (simp add: upt_rec)
  from geocodeCity_exhausts_retries [of None "''Manila''" None
      "always 503 ''Service Unavailable'' BodyInvalid" None, OF _ retry]
  show ?thesis
    by (simp add: always_def attempt_body_def ok_def new_Error_def relabel_def
          string_of_nat.simps digit_def upt2)
qed

text \<open>
  C4: when the first call of \<open>fetch\<close> answers HTTP 429, \<open>geocodeCity\<close> makes
  exactly one call and throws the rate-limit error at once, with no backoff wait,
  whatever positive budget \<open>maxRetries\<close> it was given.
\<close>

theorem geocodeCity_rate_limit_single_attempt:
  assumes "0 < or_default maxRetries 3"
    and "fetch 0 = Resolves r"
    and "status r = 429"
  shows "geocodeCity fetch city country' maxRetries timeoutMs
           = (Inl (JsError ''Error'' ''Geocoding API rate limit exceeded. Please try again later.''),
              \<lparr>fetches = 1, waits = []\<rparr>)"
proof -
  let ?tr = "\<lparr>fetches = 0, waits = []\<rparr>"
  have body: "attempt_body city country' (fetch (fetches ?tr))
                = Inl (new_Error ''Geocoding API rate limit exceeded. Please try again later.'')"
    using assms(2) attempt_body_rate_limit [OF assms(3)] by simp
  have "int 0 < or_default maxRetries 3" using assms(1) by simp
  from geocode_loop_terminal [where fetch = fetch and tr = ?tr, OF this body rate_limit_not_retryable]
  show ?thesis by (simp add: geocodeCity_def new_Error_def)
qed

theorem geocodeCity_rate_limit_single_attempt_witness:
  "geocodeCity (always 429 ''Too Many Requests'' BodyInvalid) ''Manila'' (Some ''PH'') (Some 5) None
     = (Inl (JsError ''Error'' ''Geocoding API rate limit exceeded. Please try again later.''),
        \<lparr>fetches = 1, waits = []\<rparr>)"
  using geocodeCity_rate_limit_single_attempt [of "Some 5" "always 429 ''Too Many Requests'' BodyInvalid"
      "\<lparr>status = 429, statusText = ''Too Many Requests'', body = BodyInvalid\<rparr>" "''Manila''" "Some ''PH''" None]
  by (simp add: always_def)

text \<open>
  C5: on any attempt within the budget, a response with a successful status (200
  among them) whose body is an object with no \<open>results\<close> property (or a falsy
  one), or with an empty \<open>results\<close> array, makes the loop throw the
  \<open>City not found\<close> error on that attempt: the call is counted, no wait is added
  and no further attempt is made.
\<close>

theorem empty_results_not_retried:
  assumes "int attempt < maxRetries"
    and "fetch (fetches tr) = Resolves r"
    and "ok r"
    and "body r = BodyJson (JObj kvs)"
    and "\<not> truthy (map_of kvs ''results'') \<or> map_of kvs ''results'' = Some (JArr [])"
  shows "geocode_loop fetch city country' maxRetries timeoutMs attempt lastError tr
           = (Inl (JsError ''Error''
                 (''City not found: \"'' @ city @ ''\"''
                    @ (case country' of None \<Rightarrow> '''' | Some c \<Rightarrow> if c \<noteq> [] then '' in '' @ c else '''')
                    @ ''. Please check the spelling and try again.'')),
              tr\<lparr>fetches := fetches tr + 1\<rparr>)"
proof -
  have body: "attempt_body city country' (fetch (fetches tr)) = Inl (city_not_found city country')"
    using assms(2) attempt_body_no_results [OF assms(3,4,5)] by simp
  from geocode_loop_terminal [where fetch = fetch and tr = tr, OF assms(1) body city_not_found_not_retryable]
  show ?thesis by (simp add: city_not_found_def new_Error_def)
qed

theorem empty_results_not_retried_witness:
  "geocode_loop (always 200 ''OK'' (BodyJson (JObj [(''results'', JArr [])]))) ''Atlantis'' (Some ''GR'')
      3 10000 0 None \<lparr>fetches = 0, waits = []\<rparr>
     = (Inl (JsError ''Error''
          ''City not found: \"Atlantis\" in GR. Please check the spelling and try again.''),
        \<lparr>fetches = 1, waits = []\<rparr>)"
  using empty_results_not_retried [of 0 3 "always 200 ''OK'' (BodyJson (JObj [(''results'', JArr [])]))"
      "\<lparr>fetches = 0, waits = []\<rparr>"
      "\<lparr>status = 200, statusText = ''OK'', body = BodyJson (JObj [(''results'', JArr [])])\<rparr>"
      "[(''results'', JArr [])]" "''Atlantis''" "Some ''GR''" 10000 None]
  by (simp add: always_def ok_def)

section \<open>Facts about the registry\<close>

lemma distinct_register: "distinct (map fst connections) \<Longrightarrow> distinct (map fst (register now sid tr sv connections))"
  by (simp add: register_def distinct_update)

lemma distinct_get: "distinct (map fst connections) \<Longrightarrow> distinct (map fst (snd (get now sid connections)))"
  by (simp add: get_def distinct_update split: option.splits)

lemma distinct_remove: "distinct (map fst connections) \<Longrightarrow> distinct (map fst (remove sid connections))"
  by (simp add: remove_def distinct_delete)

lemma length_update_present:
  "map_of al k = Some v \<Longrightarrow> length (AList.update k v' al) = length al"
  by (induction al) (auto split: if_splits)

lemma foldl_remove_filter:
  "foldl (\<lambda>cs (sid, c). if P c then remove sid cs else cs) cs es
     = filter (\<lambda>(k, c). k \<notin> fst ` {e \<in> set es. P (snd e)}) cs"
proof (induction es arbitrary: cs)
  case Nil
  then show ?case by simp
next
  case (Cons e es)
  obtain sid c where e: "e = (sid, c)" by (cases e)
  have set_eq: "P c \<Longrightarrow> fst ` {x \<in> set (e # es). P (snd x)} = insert sid (fst ` {x \<in> set es. P (snd x)})"
  proof -
    assume "P c"
    then have "{x \<in> set (e # es). P (snd x)} = insert (sid, c) {x \<in> set es. P (snd x)}"
      using e by auto
    then show ?thesis by simp
  qed
  have set_eq': "\<not> P c \<Longrightarrow> fst ` {x \<in> set (e # es). P (snd x)} = fst ` {x \<in> set es. P (snd x)}"
    using e by auto
  show ?case
  proof (cases "P c")
    case True
    have "foldl (\<lambda>cs (sid, c). if P c then remove sid cs else cs) cs (e # es)
            = filter (\<lambda>(k, c). k \<notin> fst ` {x \<in> set es. P (snd x)}) (remove sid cs)"
      using True e Cons.IH [of "remove sid cs"] by simp
    also have "\<dots> = filter (\<lambda>(k, c). k \<notin> fst ` {x \<in> set (e # es). P (snd x)}) cs"
      unfolding set_eq [OF True] remove_def AList.delete_eq
      by (auto intro!: filter_cong)
    finally show ?thesis .
  next
    case False
    then show ?thesis using e Cons.IH [of cs] set_eq' by simp
  qed
qed

lemma distinct_key_value:
  assumes "distinct (map fst cs)" "(k, c) \<in> set cs" "(k, c') \<in> set cs"
  shows "c = c'"
  using assms by (metis map_of_is_SomeI option.inject)

lemma cleanup_is_filter:
  assumes "distinct (map fst connections)"
  shows "cleanupStaleConnections now connections
           = filter (\<lambda>(sid, connection). now - lastActivity connection \<le> 30 * 60 * 1000) connections"
proof -
  have "cleanupStaleConnections now connections
          = filter (\<lambda>(k, c). k \<notin> fst ` {e \<in> set connections. now - lastActivity (snd e) > 30 * 60 * 1000})
              connections"
    unfolding cleanupStaleConnections_def
    by (rule foldl_remove_filter [where P = "\<lambda>c. now - lastActivity c > 30 * 60 * 1000"])
  also have "\<dots> = filter (\<lambda>(sid, connection). now - lastActivity connection \<le> 30 * 60 * 1000) connections"
  proof (rule filter_cong [OF refl])
    fix x assume x: "x \<in> set connections"
    obtain k c where kc: "x = (k, c)" by (cases x)
    have "k \<in> fst ` {e \<in> set connections. now - lastActivity (snd e) > 30 * 60 * 1000}
            \<longleftrightarrow> now - lastActivity c > 30 * 60 * 1000"
    proof
      assume "k \<in> fst ` {e \<in> set connections. now - lastActivity (snd e) > 30 * 60 * 1000}"
      then obtain c' where c': "(k, c') \<in> set connections" "now - lastActivity c' > 30 * 60 * 1000"
        by auto
      from distinct_key_value [OF assms c'(1)] x kc c'(2)
      show "now - lastActivity c > 30 * 60 * 1000" by auto
    next
      assume "now - lastActivity c > 30 * 60 * 1000"
      with x kc show "k \<in> fst ` {e \<in> set connections. now - lastActivity (snd e) > 30 * 60 * 1000}"
        by force
    qed
    then show "(case x of (k, c) \<Rightarrow> k \<notin> fst ` {e \<in> set connections. now - lastActivity (snd e) > 30 * 60 * 1000})
                = (case x of (sid, connection) \<Rightarrow> now - lastActivity connection \<le> 30 * 60 * 1000)"
      using kc by auto
  qed
  finally show ?thesis .
qed

lemma map_of_filter_distinct:
  assumes "distinct (map fst cs)" "map_of cs k = Some c"
  shows "map_of (filter (\<lambda>(k, c). P c) cs) k = (if P c then Some c else None)"
  using assms
proof (induction cs)
  case Nil
  then show ?case by simp
next
  case (Cons a cs)
  then show ?case
    by (cases a) (auto simp: map_of_eq_None_iff image_iff split: if_splits)
qed

section \<open>Claims about the connection registry\<close>

text \<open>
  C6, as the specification states it: \<open>register\<close> with a session identifier that
  is already present fails and does not replace the existing entry. The code does
  otherwise: \<open>register\<close> has no check and \<open>Map.set\<close> overwrites, so registering
  \<open>s1\<close> a second time leaves the single entry of the second call.
\<close>

theorem register_replaces_existing_counterexample:
  "register 9 ''s1'' (2::nat) (2::nat) (register 5 ''s1'' 1 1 [])
     = [(''s1'', \<lparr>sessionId = ''s1'', transport = 2, server = 2, createdAt = 9, lastActivity = 9\<rparr>)]"
  by (simp add: register_def)

text \<open>
  C6, amended: \<open>register\<close> with a session identifier that is already present
  succeeds and replaces the entry of that identifier by a new one, stamped with
  the current time as created-at and last-activity. Every other entry is left as
  it was and the registry still holds one entry per identifier, as many as before.
\<close>

theorem register_existing_overwrites:
  assumes "distinct (map fst connections)"
    and "map_of connections sid = Some old"
  shows "map_of (register now sid tr sv connections) sid
           = Some \<lparr>sessionId = sid, transport = tr, server = sv, createdAt = now, lastActivity = now\<rparr>
         \<and> (\<forall>other. other \<noteq> sid \<longrightarrow>
               map_of (register now sid tr sv connections) other = map_of connections other)
         \<and> length (register now sid tr sv connections) = length connections
         \<and> distinct (map fst (register now sid tr sv connections))"
  using assms
  by (simp add: register_def update_conv' length_update_present distinct_update)

theorem register_existing_overwrites_witness:
  "map_of (register 9 ''s1'' (2::nat) (2::nat)
       [(''s1'', \<lparr>sessionId = ''s1'', transport = 1, server = 1, createdAt = 5, lastActivity = 5\<rparr>)]) ''s1''
     = Some \<lparr>sessionId = ''s1'', transport = 2, server = 2, createdAt = 9, lastActivity = 9\<rparr>
   \<and> length (register 9 ''s1'' (2::nat) (2::nat)
       [(''s1'', \<lparr>sessionId = ''s1'', transport = 1, server = 1, createdAt = 5, lastActivity = 5\<rparr>)]) = 1"
  using register_existing_overwrites [of
      "[(''s1'', \<lparr>sessionId = ''s1'', transport = 1::nat, server = 1::nat, createdAt = 5, lastActivity = 5\<rparr>)]"
      "''s1''" "\<lparr>sessionId = ''s1'', transport = 1, server = 1, createdAt = 5, lastActivity = 5\<rparr>"
      9 2 2]
  by simp

text \<open>
  C7: the sweep removes exactly the entries whose idle time \<open>now - lastActivity\<close>
  exceeds 30 minutes (1800000 ms) and keeps every other entry, in order; a later
  lookup of a removed identifier finds nothing and leaves the registry as it is.
  The keys of the registry are distinct, as those of a \<open>Map\<close> are.
\<close>

theorem sweep_removes_exactly_idle:
  assumes "distinct (map fst connections)"
  shows "cleanupStaleConnections now connections
           = filter (\<lambda>(sid, connection). now - lastActivity connection \<le> 30 * 60 * 1000) connections
         \<and> (\<forall>sid connection. map_of connections sid = Some connection \<longrightarrow>
               (if now - lastActivity connection > 30 * 60 * 1000
                then get later sid (cleanupStaleConnections now connections)
                       = (None, cleanupStaleConnections now connections)
                else map_of (cleanupStaleConnections now connections) sid = Some connection))"
proof (intro conjI allI impI)
  show eq: "cleanupStaleConnections now connections
           = filter (\<lambda>(sid, connection). now - lastActivity connection \<le> 30 * 60 * 1000) connections"
    by (rule cleanup_is_filter [OF assms])
  fix sid connection
  assume "map_of connections sid = Some connection"
  from map_of_filter_distinct [OF assms this, of "\<lambda>c. now - lastActivity c \<le> 30 * 60 * 1000"]
  show "if now - lastActivity connection > 30 * 60 * 1000
        then get later sid (cleanupStaleConnections now connections)
               = (None, cleanupStaleConnections now connections)
        else map_of (cleanupStaleConnections now connections) sid = Some connection"
    by (simp add: eq get_def)
qed

theorem sweep_removes_exactly_idle_witness:
  "cleanupStaleConnections 2000000
      [(''s1'', \<lparr>sessionId = ''s1'', transport = 1::nat, server = 1::nat, createdAt = 0, lastActivity = 0\<rparr>),
       (''s2'', \<lparr>sessionId = ''s2'', transport = 2, server = 2, createdAt = 100, lastActivity = 200000\<rparr>)]
     = [(''s2'', \<lparr>sessionId = ''s2'', transport = 2, server = 2, createdAt = 100, lastActivity = 200000\<rparr>)]
   \<and> fst (get 2000001 ''s1'' (cleanupStaleConnections 2000000
      [(''s1'', \<lparr>sessionId = ''s1'', transport = 1::nat, server = 1::nat, createdAt = 0, lastActivity = 0\<rparr>),
       (''s2'', \<lparr>sessionId = ''s2'', transport = 2, server = 2, createdAt = 100, lastActivity = 200000\<rparr>)]))
     = None"
proof -
  let ?cs = "[(''s1'', \<lparr>sessionId = ''s1'', transport = 1::nat, server = 1::nat, createdAt = 0, lastActivity = 0\<rparr>),
       (''s2'', \<lparr>sessionId = ''s2'', transport = 2, server = 2, createdAt = 100, lastActivity = 200000\<rparr>)]"
  have d: "distinct (map fst ?cs)" by simp
  from sweep_removes_exactly_idle [OF d, of 2000000 2000001]
  show ?thesis by (simp add: get_def)
qed

text \<open>
  C8: \<open>register\<close> of an identifier followed at once by \<open>get\<close> of it returns the
  entry registered (same identifier, transport, server and created-at), with its
  last-activity set to the time of the lookup; the registry holds that touched
  entry. With a clock that does not go back between the two calls, the
  last-activity returned is at least the registration time.
\<close>

theorem register_then_get:
  assumes "registered_at \<le> looked_up_at"
  shows "fst (get looked_up_at sid (register registered_at sid tr sv connections))
           = Some \<lparr>sessionId = sid, transport = tr, server = sv,
                   createdAt = registered_at, lastActivity = looked_up_at\<rparr>
         \<and> map_of (snd (get looked_up_at sid (register registered_at sid tr sv connections))) sid
           = Some \<lparr>sessionId = sid, transport = tr, server = sv,
                   createdAt = registered_at, lastActivity = looked_up_at\<rparr>
         \<and> registered_at
             \<le> lastActivity (the (fst (get looked_up_at sid (register registered_at sid tr sv connections))))"
  using assms by (simp add: get_def register_def update_conv')

theorem register_then_get_witness:
  "fst (get 7 ''s1'' (register 5 ''s1'' (1::nat) (1::nat) []))
     = Some \<lparr>sessionId = ''s1'', transport = 1, server = 1, createdAt = 5, lastActivity = 7\<rparr>
   \<and> (5::int) \<le> lastActivity (the (fst (get 7 ''s1'' (register 5 ''s1'' (1::nat) (1::nat) []))))"
  using register_then_get [of 5 7 "''s1''" "1::nat" "1::nat" "[]"]
  by simp

section \<open>Claims about the tool-call handler\<close>

lemma handler_catches:
  "CallToolRequest_handler env name' arguments
     = Inr (case try_call_tool env name' arguments of
              Inr result \<Rightarrow> result
            | Inl error \<Rightarrow>
                \<lparr>content = [TextContent (''Error: '' @ error_text error)], isError = Some True\<rparr>)"
  by (simp add: CallToolRequest_handler_def split: sum.splits)

lemma try_unknown_tool:
  "name' \<notin> set tool_names \<Longrightarrow> try_call_tool env name' arguments = Inl (new_Error (''Unknown tool: '' @ name'))"
  by (simp add: try_call_tool_def tool_names_def)

lemma try_schema_rejects:
  "schema_issues name' arguments = Some issues \<Longrightarrow>
     try_call_tool env name' arguments = Inl (Err (JsError ''ZodError'' (zod_message env issues)))"
  by (auto simp: schema_issues_def try_call_tool_def parse_def split: if_splits sum.splits)

lemma try_fetch_fails:
  "GetCurrentWeatherArgsSchema arguments = Inr (city, country') \<Longrightarrow>
     fetchCurrentWeather env city country' = Inl error \<Longrightarrow>
     try_call_tool env ''get_current_weather'' arguments = Inl error"
  "GetWeatherForecastArgsSchema arguments = Inr (city, country', days) \<Longrightarrow>
     fetchWeatherForecast env city country' days = Inl error \<Longrightarrow>
     try_call_tool env ''get_weather_forecast'' arguments = Inl error"
  "GetWeatherAlertsArgsSchema arguments = Inr (city, country') \<Longrightarrow>
     fetchWeatherAlerts env city country' = Inl error \<Longrightarrow>
     try_call_tool env ''get_weather_alerts'' arguments = Inl error"
  "GetGrowingConditionsArgsSchema arguments = Inr (city, country', base_temp) \<Longrightarrow>
     fetchGrowingConditions env city country' base_temp = Inl error \<Longrightarrow>
     try_call_tool env ''get_growing_conditions'' arguments = Inl error"
  "GetHistoricalWeatherArgsSchema arguments = Inr (city, country', month, years_back) \<Longrightarrow>
     fetchHistoricalWeather env city month country' years_back = Inl error \<Longrightarrow>
     try_call_tool env ''get_historical_weather'' arguments = Inl error"
  by (simp_all add: try_call_tool_def parse_def)

text \<open>
  C9: the handler never lets an exception out: it always returns a result. Any
  failure of its \<open>try\<close> block becomes a result whose text is \<open>Error: \<close> followed
  by the message and whose \<open>isError\<close> flag is set. That holds of each kind of
  failure: a tool name that is not one of the five; arguments that the schema of
  the tool rejects; and, for each of the five tools, arguments that parse and a
  fetch function that then throws.
\<close>

theorem handler_never_throws:
  "(\<exists>result. CallToolRequest_handler env name' arguments = Inr result)
   \<and> (\<forall>error. try_call_tool env name' arguments = Inl error \<longrightarrow>
         CallToolRequest_handler env name' arguments
           = Inr \<lparr>content = [TextContent (''Error: '' @ error_text error)], isError = Some True\<rparr>)
   \<and> (name' \<notin> set tool_names \<longrightarrow>
         CallToolRequest_handler env name' arguments
           = Inr \<lparr>content = [TextContent (''Error: Unknown tool: '' @ name')], isError = Some True\<rparr>)
   \<and> (\<forall>issues. schema_issues name' arguments = Some issues \<longrightarrow>
         CallToolRequest_handler env name' arguments
           = Inr \<lparr>content = [TextContent (''Error: '' @ zod_message env issues)], isError = Some True\<rparr>)
   \<and> (\<forall>city country' error.
         GetCurrentWeatherArgsSchema arguments = Inr (city, country')
         \<and> fetchCurrentWeather env city country' = Inl error \<longrightarrow>
         CallToolRequest_handler env ''get_current_weather'' arguments
           = Inr \<lparr>content = [TextContent (''Error: '' @ error_text error)], isError = Some True\<rparr>)
   \<and> (\<forall>city country' days error.
         GetWeatherForecastArgsSchema arguments = Inr (city, country', days)
         \<and> fetchWeatherForecast env city country' days = Inl error \<longrightarrow>
         CallToolRequest_handler env ''get_weather_forecast'' arguments
           = Inr \<lparr>content = [TextContent (''Error: '' @ error_text error)], isError = Some True\<rparr>)
   \<and> (\<forall>city country' error.
         GetWeatherAlertsArgsSchema arguments = Inr (city, country')
         \<and> fetchWeatherAlerts env city country' = Inl error \<longrightarrow>
         CallToolRequest_handler env ''get_weather_alerts'' arguments
           = Inr \<lparr>content = [TextContent (''Error: '' @ error_text error)], isError = Some True\<rparr>)
   \<and> (\<forall>city country' base_temp error.
         GetGrowingConditionsArgsSchema arguments = Inr (city, country', base_temp)
         \<and> fetchGrowingConditions env city country' base_temp = Inl error \<longrightarrow>
         CallToolRequest_handler env ''get_growing_conditions'' arguments
           = Inr \<lparr>content = [TextContent (''Error: '' @ error_text error)], isError = Some True\<rparr>)
   \<and> (\<forall>city country' month years_back error.
         GetHistoricalWeatherArgsSchema arguments = Inr (city, country', month, years_back)
         \<and> fetchHistoricalWeather env city month country' years_back = Inl error \<longrightarrow>
         CallToolRequest_handler env ''get_historical_weather'' arguments
           = Inr \<lparr>content = [TextContent (''Error: '' @ error_text error)], isError = Some True\<rparr>)"
proof (intro conjI allI impI; (elim conjE)?)
  show "\<exists>result. CallToolRequest_handler env name' arguments = Inr result"
    by (simp add: handler_catches)
next
  fix error assume "try_call_tool env name' arguments = Inl error"
  then show "CallToolRequest_handler env name' arguments
           = Inr \<lparr>content = [TextContent (''Error: '' @ error_text error)], isError = Some True\<rparr>"
    by (simp add: handler_catches)
next
  assume "name' \<notin> set tool_names"
  from try_unknown_tool [OF this]
  show "CallToolRequest_handler env name' arguments
           = Inr \<lparr>content = [TextContent (''Error: Unknown tool: '' @ name')], isError = Some True\<rparr>"
    by (simp add: handler_catches new_Error_def)
next
  fix issues assume "schema_issues name' arguments = Some issues"
  from try_schema_rejects [OF this]
  show "CallToolRequest_handler env name' arguments
           = Inr \<lparr>content = [TextContent (''Error: '' @ zod_message env issues)], isError = Some True\<rparr>"
    by (simp add: handler_catches)
next
  fix city country' error
  assume "GetCurrentWeatherArgsSchema arguments = Inr (city, country')"
    and "fetchCurrentWeather env city country' = Inl error"
  from try_fetch_fails(1) [OF this]
  show "CallToolRequest_handler env ''get_current_weather'' arguments
           = Inr \<lparr>content = [TextContent (''Error: '' @ error_text error)], isError = Some True\<rparr>"
    by (simp add: handler_catches)
next
  fix city country' days error
  assume "GetWeatherForecastArgsSchema arguments = Inr (city, country', days)"
    and "fetchWeatherForecast env city country' days = Inl error"
  from try_fetch_fails(2) [OF this]
  show "CallToolRequest_handler env ''get_weather_forecast'' arguments
           = Inr \<lparr>content = [TextContent (''Error: '' @ error_text error)], isError = Some True\<rparr>"
    by (simp add: handler_catches)
next
  fix city country' error
  assume "GetWeatherAlertsArgsSchema arguments = Inr (city, country')"
    and "fetchWeatherAlerts env city country' = Inl error"
  from try_fetch_fails(3) [OF this]
  show "CallToolRequest_handler env ''get_weather_alerts'' arguments
           = Inr \<lparr>content = [TextContent (''Error: '' @ error_text error)], isError = Some True\<rparr>"
    by (simp add: handler_catches)
next
  fix city country' base_temp error
  assume "GetGrowingConditionsArgsSchema arguments = Inr (city, country', base_temp)"
    and "fetchGrowingConditions env city country' base_temp = Inl error"
  from try_fetch_fails(4) [OF this]
  show "CallToolRequest_handler env ''get_growing_conditions'' arguments
           = Inr \<lparr>content = [TextContent (''Error: '' @ error_text error)], isError = Some True\<rparr>"
    by (simp add: handler_catches)
next
  fix city country' month years_back error
  assume "GetHistoricalWeatherArgsSchema arguments = Inr (city, country', month, years_back)"
    and "fetchHistoricalWeather env city month country' years_back = Inl error"
  from try_fetch_fails(5) [OF this]
  show "CallToolRequest_handler env ''get_historical_weather'' arguments
           = Inr \<lparr>content = [TextContent (''Error: '' @ error_text error)], isError = Some True\<rparr>"
    by (simp add: handler_catches)
qed

theorem handler_never_throws_witness:
  "CallToolRequest_handler failing_env ''get_tides'' None
     = Inr \<lparr>content = [TextContent ''Error: Unknown tool: get_tides''], isError = Some True\<rparr>
   \<and> CallToolRequest_handler failing_env ''get_weather_forecast''
        (Some (JObj [(''city'', JStr ''Manila''), (''days'', JNum 20)]))
     = Inr \<lparr>content = [TextContent ''Error: invalid arguments''], isError = Some True\<rparr>
   \<and> CallToolRequest_handler failing_env ''get_current_weather''
        (Some (JObj [(''city'', JStr ''Atlantis'')]))
     = Inr \<lparr>content = [TextContent ''Error: City not found: Atlantis''], isError = Some True\<rparr>
   \<and> CallToolRequest_handler failing_env ''get_weather_forecast''
        (Some (JObj [(''city'', JStr ''Manila'')]))
     = Inr \<lparr>content = [TextContent ''Error: Weather API error: Service Unavailable''],
            isError = Some True\<rparr>
   \<and> CallToolRequest_handler failing_env ''get_weather_alerts''
        (Some (JObj [(''city'', JStr ''Manila'')]))
     = Inr \<lparr>content = [TextContent ''Error: boom''], isError = Some True\<rparr>
   \<and> CallToolRequest_handler failing_env ''get_growing_conditions''
        (Some (JObj [(''city'', JStr ''Manila''), (''base_temp'', JNum 12)]))
     = Inr \<lparr>content = [TextContent ''Error: Weather API error: Bad Gateway''], isError = Some True\<rparr>
   \<and> CallToolRequest_handler failing_env ''get_historical_weather''
        (Some (JObj [(''city'', JStr ''Manila''), (''month'', JNum 6)]))
     = Inr \<lparr>content = [TextContent ''Error: Historical Weather API error: Not Found''],
            isError = Some True\<rparr>"
proof -
  let ?manila = "Some (JObj [(''city'', JStr ''Manila'')])"
  have unknown: "''get_tides'' \<notin> set tool_names" by (simp add: tool_names_def)
  have issues: "schema_issues ''get_weather_forecast''
        (Some (JObj [(''city'', JStr ''Manila''), (''days'', JNum 20)])) = Some [TooBig [''days'']]"
    by (simp add: schema_issues_def GetWeatherForecastArgsSchema_def)
  have current: "GetCurrentWeatherArgsSchema (Some (JObj [(''city'', JStr ''Atlantis'')]))
        = Inr (''Atlantis'', None)"
    by (simp add: GetCurrentWeatherArgsSchema_def)
  have forecast: "GetWeatherForecastArgsSchema ?manila = Inr (''Manila'', None, 7)"
    by (simp add: GetWeatherForecastArgsSchema_def)
  have alerts: "GetWeatherAlertsArgsSchema ?manila = Inr (''Manila'', None)"
    by (simp add: GetWeatherAlertsArgsSchema_def)
  have growing: "GetGrowingConditionsArgsSchema
        (Some (JObj [(''city'', JStr ''Manila''), (''base_temp'', JNum 12)])) = Inr (''Manila'', None, 12)"
    by (simp add: GetGrowingConditionsArgsSchema_def)
  have historical: "GetHistoricalWeatherArgsSchema
        (Some (JObj [(''city'', JStr ''Manila''), (''month'', JNum 6)])) = Inr (''Manila'', None, 6, 1)"
    by (simp add: GetHistoricalWeatherArgsSchema_def)
  from handler_never_throws [of failing_env "''get_tides''" None]
    handler_never_throws [of failing_env "''get_weather_forecast''"
      "Some (JObj [(''city'', JStr ''Manila''), (''days'', JNum 20)])"]
    handler_never_throws [of failing_env "''get_current_weather''"
      "Some (JObj [(''city'', JStr ''Atlantis'')])"]
    handler_never_throws [of failing_env "''get_weather_forecast''" ?manila]
    handler_never_throws [of failing_env "''get_growing_conditions''"
      "Some (JObj [(''city'', JStr ''Manila''), (''base_temp'', JNum 12)])"]
    handler_never_throws [of failing_env "''get_historical_weather''"
      "Some (JObj [(''city'', JStr ''Manila''), (''month'', JNum 6)])"]
    unknown issues current forecast alerts growing historical
  show ?thesis
    by (simp add: new_Error_def failing_env_def)
qed

end
